theory Spec2Isabelle
  imports Complex_Main "HOL-Library.Word" "HOL-Library.List_Lexorder"
begin

section \<open>The create-VM dialog of the machines page (createVmDialog.jsx)\<close>

text \<open>
  The development embeds the form-state and validation logic of
  \<^verbatim>\<open>pkg/machines/components/create-vm-dialog/createVmDialog.jsx\<close>:
  \<^verbatim>\<open>getPoolSpaceAvailable\<close>, \<^verbatim>\<open>getSpaceAvailable\<close>, \<^verbatim>\<open>validateParams\<close>, and the methods
  \<^verbatim>\<open>onValueChanged\<close> and \<^verbatim>\<open>onCreateClicked\<close> of \<^verbatim>\<open>CreateVmModal\<close>.

  Conventions of the embedding.
  \<^item> A JavaScript string is the list of its UTF-16 code units; \<open>lit\<close> turns an ASCII
    literal into such a list.
  \<^item> A JavaScript number is a rational. The only arithmetic of the dialog is scaling by
    powers of 1024, \<^verbatim>\<open>Math.floor\<close> and \<^verbatim>\<open>Math.min\<close>; rounding, overflow and NaN
    of IEEE doubles are outside the model.
  \<^item> \<^verbatim>\<open>undefined\<close> and \<^verbatim>\<open>null\<close> are \<open>None\<close>.
  \<^item> A \<^verbatim>\<open>TypeError\<close> raised by reading a property of \<^verbatim>\<open>undefined\<close> is the value
    \<open>Inl TypeError\<close>.
\<close>

subsection \<open>Strings\<close>

type_synonym jsstring = "16 word list"

definition lit :: "string \<Rightarrow> jsstring" where
  "lit s = map of_char s"

text \<open>
  \<^verbatim>\<open>String.prototype.trim\<close> removes WhiteSpace and LineTerminator code points of
  ECMAScript from both ends: TAB, LF, VT, FF, CR, SP, NBSP, the Unicode space separators
  and the byte order mark.
\<close>

definition isWhiteSpace :: "16 word \<Rightarrow> bool" where
  "isWhiteSpace c \<longleftrightarrow>
     c \<in> {0x09, 0x0A, 0x0B, 0x0C, 0x0D, 0x20, 0xA0, 0x1680, 0x2028, 0x2029,
          0x202F, 0x205F, 0x3000, 0xFEFF}
     \<or> (0x2000 \<le> c \<and> c \<le> 0x200A)"

definition trim :: "jsstring \<Rightarrow> jsstring" where
  "trim s = rev (dropWhile isWhiteSpace (rev (dropWhile isWhiteSpace s)))"

definition startsWith :: "jsstring \<Rightarrow> jsstring \<Rightarrow> bool" where
  "startsWith str searchString \<longleftrightarrow> take (length searchString) str = searchString"

text \<open>
  \<^verbatim>\<open>str.split(sep)\<close> for a separator of one code unit, and \<^verbatim>\<open>parts.join(sep)\<close>.
  The split of the empty string is the one-element array holding the empty string.
\<close>

fun split :: "16 word \<Rightarrow> jsstring \<Rightarrow> jsstring list" where
  "split sep [] = [[]]"
| "split sep (c # cs) =
     (if c = sep then [] # split sep cs
      else (case split sep cs of
              [] \<Rightarrow> [[c]]
            | p # ps \<Rightarrow> (c # p) # ps))"

fun join :: "jsstring \<Rightarrow> jsstring list \<Rightarrow> jsstring" where
  "join sep [] = []"
| "join sep [p] = p"
| "join sep (p # q # ps) = p @ sep @ join sep (q # ps)"

text \<open>Truthiness of a string that may be undefined, and of a number that may be.\<close>

definition truthy_str :: "jsstring option \<Rightarrow> bool" where
  "truthy_str s \<longleftrightarrow> (case s of None \<Rightarrow> False | Some x \<Rightarrow> x \<noteq> [])"

definition truthy_num :: "rat option \<Rightarrow> bool" where
  "truthy_num n \<longleftrightarrow> (case n of None \<Rightarrow> False | Some x \<Rightarrow> x \<noteq> 0)"

subsection \<open>What helpers.js and pxe-helpers.js provide\<close>

text \<open>
  Modelled from the spec: \<^verbatim>\<open>isEmpty\<close> of helpers.js, which is not among the sources.
  The validation rules call a string empty when it is missing or has no characters.
\<close>

definition isEmpty :: "jsstring option \<Rightarrow> bool" where
  "isEmpty str \<longleftrightarrow> (case str of None \<Rightarrow> True | Some s \<Rightarrow> s = [])"

text \<open>
  Modelled from the spec: the table \<^verbatim>\<open>units\<close> of helpers.js, which is not among the
  sources. The unit ladder is bytes, KiB, MiB, GiB, each 1024 times the one before.
\<close>

datatype units = B | KiB | MiB | GiB

fun base1024Exponent :: "units \<Rightarrow> nat" where
  "base1024Exponent B = 0"
| "base1024Exponent KiB = 1"
| "base1024Exponent MiB = 2"
| "base1024Exponent GiB = 3"

text \<open>
  Modelled from the spec: \<^verbatim>\<open>convertToUnit\<close> of helpers.js, which is not among the
  sources: a pure proportional conversion of a value from one unit of the ladder to
  another.
\<close>

definition convertToUnit :: "rat \<Rightarrow> units \<Rightarrow> units \<Rightarrow> rat" where
  "convertToUnit input inputUnit outputUnit =
     input * 1024 ^ base1024Exponent inputUnit / 1024 ^ base1024Exponent outputUnit"

text \<open>
  Modelled from the spec: the constants \<^verbatim>\<open>LIBVIRT_SYSTEM_CONNECTION\<close> and
  \<^verbatim>\<open>LIBVIRT_SESSION_CONNECTION\<close> of helpers.js, which is not among the sources. The
  connection scope is an enumeration of two values, system-wide and per-user session.
\<close>

datatype connection = LIBVIRT_SYSTEM_CONNECTION | LIBVIRT_SESSION_CONNECTION

record network =
  net_name :: jsstring
  net_connectionName :: connection

record nodeDevice =
  dev_name :: jsstring
  dev_connectionName :: connection

text \<open>
  Modelled from the spec: \<^verbatim>\<open>getPXEInitialNetworkSource\<close> of pxe-helpers.js, which is
  not among the sources. It computes the initial network-boot source from the node
  devices and the virtual networks of the connection scope, and the result is a
  non-empty default as soon as a network or a device exists: here the first virtual
  network when there is one, otherwise the first node device, each behind a fixed tag;
  with neither the result is undefined.
\<close>

definition getPXEInitialNetworkSource :: "nodeDevice list \<Rightarrow> network list \<Rightarrow> jsstring option" where
  "getPXEInitialNetworkSource nodeDevices networks =
     (case networks of
        n # _ \<Rightarrow> Some (lit ''network='' @ net_name n)
      | [] \<Rightarrow> (case nodeDevices of
                 d # _ \<Rightarrow> Some (lit ''type=direct,source='' @ dev_name d)
               | [] \<Rightarrow> None))"

subsection \<open>Data of the dialog\<close>

definition URL_SOURCE :: jsstring where "URL_SOURCE = lit ''url''"
definition LOCAL_INSTALL_MEDIA_SOURCE :: jsstring where "LOCAL_INSTALL_MEDIA_SOURCE = lit ''file''"
definition DOWNLOAD_AN_OS :: jsstring where "DOWNLOAD_AN_OS = lit ''os''"
definition EXISTING_DISK_IMAGE_SOURCE :: jsstring where "EXISTING_DISK_IMAGE_SOURCE = lit ''disk_image''"
definition PXE_SOURCE :: jsstring where "PXE_SOURCE = lit ''pxe''"

datatype error = TypeError

text \<open>The user record of \<^verbatim>\<open>cockpit.permission\<close>; it is undefined until it is loaded.\<close>

record user =
  user_name :: jsstring
  user_home :: jsstring

record resources =
  ram :: "rat option"
  storage :: "rat option"

record osinfo =
  os_id :: jsstring
  shortId :: jsstring
  minimumResources :: resources
  recommendedResources :: resources
  profiles :: "jsstring list option"
  unattendedInstallable :: bool

record vm =
  vm_name :: jsstring
  vm_connectionName :: connection

record storageVolume_rec =
  vol_name :: jsstring

record storagePool_rec =
  pool_id :: jsstring
  pool_name :: jsstring
  pool_connectionName :: connection
  pool_target_path :: jsstring
  pool_available :: "rat option"
  pool_volumes :: "storageVolume_rec list option"

text \<open>The properties of \<^verbatim>\<open>CreateVmModal\<close> that the two methods read.\<close>

record props =
  nodeMaxMemory :: rat
  nodeDevices :: "nodeDevice list"
  networks :: "network list"
  storagePools :: "storagePool_rec list"
  vms :: "vm list"
  osInfoList :: "osinfo list"
  mode :: jsstring
  downloadOSSupported :: bool

text \<open>\<^verbatim>\<open>this.state\<close> of \<^verbatim>\<open>CreateVmModal\<close>.\<close>

record state =
  inProgress :: bool
  validate :: bool
  vmName :: jsstring
  connectionName :: connection
  sourceType :: jsstring
  unattendedInstallation :: bool
  source :: "jsstring option"
  os :: "osinfo option"
  memorySize :: rat
  memorySizeUnit :: units
  storageSize :: rat
  storageSizeUnit :: units
  storagePool :: jsstring
  storageVolume :: "jsstring option"
  startVm :: bool
  recommendedMemory :: "rat option"
  minimumMemory :: rat
  recommendedStorage :: "rat option"
  minimumStorage :: rat
  userPassword :: jsstring
  rootPassword :: jsstring
  profile :: "jsstring option"
  sourceMediaID :: "jsstring option"

text \<open>
  The object \<^verbatim>\<open>validationFailed\<close>: one optional entry per form section. A key of the
  JavaScript object is present exactly when the field is \<open>Some\<close>.
\<close>

datatype message =
    NameEmpty
  | VmExists jsstring
  | OsRequired
  | InvalidFilename
  | SourceProtocol
  | SourceEmpty
  | MemoryZero
  | MemoryMinimum rat units
  | StorageZero
  | StorageMinimum rat units
  | PasswordRequired

record validation =
  failed_vmName :: "message option"
  failed_os :: "message option"
  failed_source :: "message option"
  failed_memory :: "message option"
  failed_storage :: "message option"
  failed_password :: "message option"

definition no_failures :: validation where
  "no_failures = \<lparr>failed_vmName = None, failed_os = None, failed_source = None,
     failed_memory = None, failed_storage = None, failed_password = None\<rparr>"

text \<open>The parameter object handed to \<^verbatim>\<open>createVm\<close>.\<close>

record createVm_params =
  p_connectionName :: connection
  p_vmName :: jsstring
  p_source :: "jsstring option"
  p_sourceType :: jsstring
  p_os :: jsstring
  p_profile :: "jsstring option"
  p_memorySize :: rat
  p_storageSize :: rat
  p_storagePool :: jsstring
  p_storageVolume :: "jsstring option"
  p_startVm :: bool
  p_unattended :: bool
  p_userPassword :: jsstring
  p_rootPassword :: jsstring

subsection \<open>Available space of the storage pools\<close>

definition getPoolSpaceAvailable ::
    "storagePool_rec list \<Rightarrow> jsstring option \<Rightarrow> jsstring option \<Rightarrow> connection \<Rightarrow> rat option" where
  "getPoolSpaceAvailable storagePools0 poolName poolPath connectionName0 =
     (let storagePools1 = filter (\<lambda>pool. pool_connectionName pool = connectionName0) storagePools0;
          storagePool0 =
            (if truthy_str poolName
               then find (\<lambda>pool. Some (pool_name pool) = poolName) storagePools1
             else if truthy_str poolPath
               then find (\<lambda>pool. Some (pool_target_path pool) = poolPath) storagePools1
             else None)
      in case storagePool0 of
           Some pool \<Rightarrow> pool_available pool
         | None \<Rightarrow> None)"

definition getSpaceAvailable ::
    "user option \<Rightarrow> storagePool_rec list \<Rightarrow> connection \<Rightarrow> rat option" where
  "getSpaceAvailable permission_user storagePools0 connectionName0 =
     (let space = getPoolSpaceAvailable storagePools0 (Some (lit ''default'')) None connectionName0
      in if \<not> truthy_num space
           then
             (let poolPath =
                    (if connectionName0 = LIBVIRT_SYSTEM_CONNECTION
                       then Some (lit ''/var/lib/libvirt/images'')
                     else (case permission_user of
                             Some u \<Rightarrow> Some (user_home u @ lit ''/.local/share/libvirt/images'')
                           | None \<Rightarrow> None))
              in getPoolSpaceAvailable storagePools0 None poolPath connectionName0)
         else space)"

subsection \<open>Validation\<close>

text \<open>
  \<^verbatim>\<open>validateParams\<close> receives the state of the dialog together with the virtual
  machines of the active connection (\<^verbatim>\<open>{ ...this.state, osInfoList, vms }\<close>); the
  list of operating systems is not read. The global \<^verbatim>\<open>permission.user\<close> is the first
  argument: the password rule reads its name without a guard, which raises when the user
  record is not loaded yet.
\<close>

definition validateParams :: "user option \<Rightarrow> vm list \<Rightarrow> state \<Rightarrow> error + validation" where
  "validateParams permission_user vms0 vmParams =
     (let name_entry =
            (if isEmpty (Some (trim (vmName vmParams))) then Some NameEmpty
             else if list_ex (\<lambda>vm. vm_name vm = vmName vmParams) vms0
               then Some (VmExists (vmName vmParams))
             else None);
          os_entry = (if os vmParams = None then Some OsRequired else None);
          empty_source_entry =
            (if sourceType vmParams \<noteq> DOWNLOAD_AN_OS then Some SourceEmpty else None);
          source_entry =
            (case source vmParams of
               None \<Rightarrow> empty_source_entry
             | Some src \<Rightarrow>
                 if src \<noteq> [] \<and> \<not> isEmpty (Some (trim src)) then
                   (if sourceType vmParams = PXE_SOURCE then None
                    else if sourceType vmParams = LOCAL_INSTALL_MEDIA_SOURCE
                            \<or> sourceType vmParams = EXISTING_DISK_IMAGE_SOURCE then
                      (if \<not> startsWith src (lit ''/'') then Some InvalidFilename else None)
                    else
                      (if \<not> startsWith src (lit ''http'') \<and>
                          \<not> startsWith src (lit ''ftp'') \<and>
                          \<not> startsWith src (lit ''nfs'')
                         then Some SourceProtocol else None))
                 else empty_source_entry);
          memory_entry =
            (if memorySize vmParams = 0 then Some MemoryZero
             else (case os vmParams of
                     None \<Rightarrow> None
                   | Some os0 \<Rightarrow>
                       (case ram (minimumResources os0) of
                          None \<Rightarrow> None
                        | Some r \<Rightarrow>
                            if r \<noteq> 0 \<and>
                               convertToUnit (memorySize vmParams) (memorySizeUnit vmParams) B < r
                              then Some (MemoryMinimum (convertToUnit r B (memorySizeUnit vmParams))
                                           (memorySizeUnit vmParams))
                            else None)));
          storage_entry =
            (if sourceType vmParams \<noteq> EXISTING_DISK_IMAGE_SOURCE \<and>
                storagePool vmParams = lit ''NewVolume'' then
               (if storageSize vmParams = 0 then Some StorageZero
                else (case os vmParams of
                        None \<Rightarrow> None
                      | Some os0 \<Rightarrow>
                          (case storage (minimumResources os0) of
                             None \<Rightarrow> None
                           | Some r \<Rightarrow>
                               if r \<noteq> 0 \<and>
                                  convertToUnit (storageSize vmParams) (storageSizeUnit vmParams) B < r
                                 then Some (StorageMinimum
                                              (convertToUnit r B (storageSizeUnit vmParams))
                                              (storageSizeUnit vmParams))
                               else None)))
             else None);
          validationFailed = \<lparr>failed_vmName = name_entry, failed_os = os_entry,
            failed_source = source_entry, failed_memory = memory_entry,
            failed_storage = storage_entry, failed_password = None\<rparr>
      in if unattendedInstallation vmParams \<and> rootPassword vmParams = [] then
           (case permission_user of
              None \<Rightarrow> Inl TypeError
            | Some u \<Rightarrow>
                if user_name u = lit ''root'' \<or> userPassword vmParams = []
                  then Inr (validationFailed\<lparr>failed_password := Some PasswordRequired\<rparr>)
                else Inr validationFailed)
         else Inr validationFailed)"

subsection \<open>The field update rule\<close>

text \<open>
  A call \<^verbatim>\<open>onValueChanged(key, value)\<close> is a value of \<open>change\<close>: the key with the
  payload the dialog passes for it. The keys without a case of their own
  (\<^verbatim>\<open>profile\<close>, \<^verbatim>\<open>sourceMediaID\<close>, \<^verbatim>\<open>userPassword\<close>, \<^verbatim>\<open>rootPassword\<close>) take
  the default branch.
\<close>

datatype change =
    K_vmName jsstring
  | K_source "jsstring option"
  | K_sourceType jsstring
  | K_storagePool jsstring
  | K_storageVolume "jsstring option"
  | K_memorySize rat
  | K_storageSize rat
  | K_memorySizeUnit units
  | K_storageSizeUnit units
  | K_startVm bool
  | K_connectionName connection
  | K_os "osinfo option"
  | K_unattendedInstallation bool
  | K_profile "jsstring option"
  | K_sourceMediaID "jsstring option"
  | K_userPassword jsstring
  | K_rootPassword jsstring

text \<open>
  The object \<^verbatim>\<open>stateDelta\<close> of the \<^verbatim>\<open>os\<close> case, merged into the pending state by
  the last \<^verbatim>\<open>setState\<close> of that case. \<^verbatim>\<open>value.profiles.sort().reverse()\<close> sorts
  the array of the profiles by code units and reverses it, both in place, so the object
  stored as \<^verbatim>\<open>os\<close> has its profiles in descending order; element 0 of that array is
  the greatest profile, and undefined for an empty array. The same object sits in the
  list of operating systems of the properties, which the handler does not return.
\<close>

definition os_stateDelta :: "osinfo \<Rightarrow> state \<Rightarrow> state" where
  "os_stateDelta v st =
     st\<lparr>os := Some (v\<lparr>profiles := map_option (\<lambda>ps. rev (sort ps)) (profiles v)\<rparr>),
        minimumMemory :=
          (case ram (minimumResources v) of
             Some r \<Rightarrow> if r \<noteq> 0 then r else minimumMemory st
           | None \<Rightarrow> minimumMemory st),
        profile :=
          (case profiles v of
             Some ps \<Rightarrow> (case rev (sort ps) of [] \<Rightarrow> None | p # _ \<Rightarrow> Some p)
           | None \<Rightarrow> profile st),
        recommendedMemory :=
          (if truthy_num (ram (recommendedResources v)) then ram (recommendedResources v) else None),
        minimumStorage :=
          (case storage (minimumResources v) of
             Some r \<Rightarrow> if r \<noteq> 0 then r else minimumStorage st
           | None \<Rightarrow> minimumStorage st),
        recommendedStorage :=
          (if truthy_num (storage (recommendedResources v))
             then storage (recommendedResources v) else None)\<rparr>"

fun rank :: "change \<Rightarrow> nat" where
  "rank (K_os _) = 1"
| "rank (K_connectionName _) = 1"
| "rank _ = 0"

text \<open>
  \<^verbatim>\<open>onValueChanged\<close> runs inside an event handler of React, where \<^verbatim>\<open>setState\<close> only
  queues a shallow merge and \<^verbatim>\<open>this.state\<close> keeps its value until the handler has
  returned. The argument \<open>this\<close> is \<^verbatim>\<open>this.state\<close>, which every read consults, and
  \<open>st\<close> is the pending state, into which every \<^verbatim>\<open>setState\<close> merges in the order
  of the calls; the result is the pending state at the end of the handler. A top-level
  call passes the same state twice. The timer that the \<^verbatim>\<open>source\<close> case starts for
  the detection of the operating system runs after the handler and is not part of it.
\<close>

function onValueChanged ::
    "user option \<Rightarrow> props \<Rightarrow> state \<Rightarrow> change \<Rightarrow> state \<Rightarrow> error + state" where
  "onValueChanged pu pr this (K_vmName v) st =
     Inr (st\<lparr>vmName := join (lit ''_'') (split 0x20 v)\<rparr>)"
| "onValueChanged pu pr this (K_source v) st =
     Inr (st\<lparr>source := v\<rparr>)"
| "onValueChanged pu pr this (K_sourceType v) st =
     (let st1 = st\<lparr>sourceType := v\<rparr>
      in if v = PXE_SOURCE then
           (let initialPXESource =
                  getPXEInitialNetworkSource
                    (filter (\<lambda>nodeDevice. dev_connectionName nodeDevice = connectionName this)
                       (nodeDevices pr))
                    (filter (\<lambda>network. net_connectionName network = connectionName this)
                       (networks pr))
            in Inr (st1\<lparr>source := initialPXESource\<rparr>))
         else if sourceType this = PXE_SOURCE \<and> v \<noteq> PXE_SOURCE then
           Inr (st1\<lparr>source := Some []\<rparr>)
         else Inr st1)"
| "onValueChanged pu pr this (K_storagePool v) st =
     (let storagePool0 =
            find (\<lambda>pool. pool_name pool = v)
              (filter (\<lambda>pool. pool_connectionName pool = connectionName this) (storagePools pr));
          storageVolumes = (case storagePool0 of Some pool \<Rightarrow> pool_volumes pool | None \<Rightarrow> None);
          storageVolume0 = (case storageVolumes of Some (vol # _) \<Rightarrow> Some vol | _ \<Rightarrow> None)
      in Inr (st\<lparr>storagePool := v, storageVolume := map_option vol_name storageVolume0\<rparr>))"
| "onValueChanged pu pr this (K_storageVolume v) st =
     Inr (st\<lparr>storageVolume := v\<rparr>)"
| "onValueChanged pu pr this (K_memorySize v) st =
     Inr (st\<lparr>memorySize :=
            min v (of_int \<lfloor>convertToUnit (nodeMaxMemory pr) KiB (memorySizeUnit this)\<rfloor>)\<rparr>)"
| "onValueChanged pu pr this (K_storageSize v) st =
     (let storagePools0 =
            filter (\<lambda>pool. pool_connectionName pool = connectionName this) (storagePools pr);
          spaceAvailable = getSpaceAvailable pu storagePools0 (connectionName this)
      in case spaceAvailable of
           Some space \<Rightarrow>
             if space \<noteq> 0
               then Inr (st\<lparr>storageSize :=
                             min v (of_int \<lfloor>convertToUnit space B (storageSizeUnit this)\<rfloor>)\<rparr>)
             else Inr (st\<lparr>storageSize := v\<rparr>)
         | None \<Rightarrow> Inr (st\<lparr>storageSize := v\<rparr>))"
| "onValueChanged pu pr this (K_memorySizeUnit v) st =
     Inr (st\<lparr>memorySizeUnit := v,
             memorySize := convertToUnit (memorySize this) (memorySizeUnit this) v\<rparr>)"
| "onValueChanged pu pr this (K_storageSizeUnit v) st =
     Inr (st\<lparr>storageSizeUnit := v,
             storageSize := convertToUnit (storageSize this) (storageSizeUnit this) v\<rparr>)"
| "onValueChanged pu pr this (K_startVm v) st =
     Inr (st\<lparr>startVm := v\<rparr>)"
| "onValueChanged pu pr this (K_connectionName v) st =
     (let st1 = st\<lparr>connectionName := v\<rparr>;
          r = (if sourceType this = PXE_SOURCE \<and> v = LIBVIRT_SESSION_CONNECTION
                 then onValueChanged pu pr this (K_sourceType LOCAL_INSTALL_MEDIA_SOURCE) st1
               else Inr st1)
      in case r of
           Inl e \<Rightarrow> Inl e
         | Inr st2 \<Rightarrow>
             if storagePool this \<noteq> lit ''NewVolume'' \<and> storagePool this \<noteq> lit ''NoStorage''
               then Inr (st2\<lparr>storagePool := lit ''NewVolume''\<rparr>)
             else Inr st2)"
| "onValueChanged pu pr this (K_os v) st =
     (case v of
        None \<Rightarrow> Inl TypeError
      | Some os0 \<Rightarrow>
          (let r1 =
                 (case ram (recommendedResources os0) of
                    None \<Rightarrow> Inr st
                  | Some recommended \<Rightarrow>
                      if recommended \<noteq> 0 then
                        (let converted = \<lfloor>convertToUnit recommended B (memorySizeUnit this)\<rfloor>
                         in if converted = 0
                              then Inr (st\<lparr>memorySizeUnit := MiB,
                                           memorySize := of_int \<lfloor>convertToUnit recommended B MiB\<rfloor>\<rparr>)
                            else onValueChanged pu pr this (K_memorySize (of_int converted)) st)
                      else Inr st)
           in case r1 of
                Inl e \<Rightarrow> Inl e
              | Inr st1 \<Rightarrow>
                  (let r2 =
                         (case storage (recommendedResources os0) of
                            None \<Rightarrow> Inr st1
                          | Some recommended \<Rightarrow>
                              if recommended \<noteq> 0 then
                                (let converted =
                                       \<lfloor>convertToUnit recommended B (storageSizeUnit this)\<rfloor>
                                 in if converted = 0
                                      then Inr (st1\<lparr>storageSizeUnit := MiB,
                                                    storageSize :=
                                                      of_int \<lfloor>convertToUnit recommended B MiB\<rfloor>\<rparr>)
                                    else onValueChanged pu pr this
                                           (K_storageSize (of_int converted)) st1)
                              else Inr st1)
                   in case r2 of
                        Inl e \<Rightarrow> Inl e
                      | Inr st2 \<Rightarrow>
                          (let r3 =
                                 (if \<not> unattendedInstallable os0
                                    then onValueChanged pu pr this
                                           (K_unattendedInstallation False) st2
                                  else Inr st2)
                           in case r3 of
                                Inl e \<Rightarrow> Inl e
                              | Inr st3 \<Rightarrow> Inr (os_stateDelta os0 st3)))))"
| "onValueChanged pu pr this (K_unattendedInstallation v) st =
     Inr (st\<lparr>unattendedInstallation := v, startVm := True\<rparr>)"
| "onValueChanged pu pr this (K_profile v) st = Inr (st\<lparr>profile := v\<rparr>)"
| "onValueChanged pu pr this (K_sourceMediaID v) st = Inr (st\<lparr>sourceMediaID := v\<rparr>)"
| "onValueChanged pu pr this (K_userPassword v) st = Inr (st\<lparr>userPassword := v\<rparr>)"
| "onValueChanged pu pr this (K_rootPassword v) st = Inr (st\<lparr>rootPassword := v\<rparr>)"
  by pat_completeness auto
termination
  by (relation "measure (\<lambda>(pu, pr, this, c, st). rank c)") auto

subsection \<open>Submission\<close>

text \<open>
  \<^verbatim>\<open>onCreateClicked\<close> returns the pending state and the list of the parameter objects
  dispatched to \<^verbatim>\<open>createVm\<close>, in the order of the calls. What happens once the promise
  of the creation settles or times out comes after the handler and is not modelled.
\<close>

definition vmParams_of :: "state \<Rightarrow> createVm_params" where
  "vmParams_of this =
     \<lparr>p_connectionName = connectionName this,
      p_vmName = vmName this,
      p_source = source this,
      p_sourceType = sourceType this,
      p_os = (case os this of Some os0 \<Rightarrow> shortId os0 | None \<Rightarrow> lit ''auto''),
      p_profile = profile this,
      p_memorySize = convertToUnit (memorySize this) (memorySizeUnit this) MiB,
      p_storageSize = convertToUnit (storageSize this) (storageSizeUnit this) GiB,
      p_storagePool = storagePool this,
      p_storageVolume = storageVolume this,
      p_startVm = startVm this,
      p_unattended = unattendedInstallation this,
      p_userPassword = userPassword this,
      p_rootPassword = rootPassword this\<rparr>"

definition onCreateClicked ::
    "user option \<Rightarrow> props \<Rightarrow> state \<Rightarrow> error + (state \<times> createVm_params list)" where
  "onCreateClicked pu pr this =
     (case validateParams pu
             (filter (\<lambda>vm. vm_connectionName vm = connectionName this) (vms pr)) this of
        Inl e \<Rightarrow> Inl e
      | Inr validation \<Rightarrow>
          if validation \<noteq> no_failures
            then Inr (this\<lparr>inProgress := False, validate := True\<rparr>, [])
          else Inr (this\<lparr>inProgress := True, validate := False\<rparr>, [vmParams_of this]))"

subsection \<open>The state a new dialog starts with\<close>

text \<open>
  The constructor of \<^verbatim>\<open>CreateVmModal\<close>. Both the memory and the storage default are
  capped by \<^verbatim>\<open>nodeMaxMemory\<close>, as in the source.
\<close>

definition constructor_state :: "props \<Rightarrow> state" where
  "constructor_state pr =
     (let defaultSourceType =
            (if mode pr = lit ''create''
               then (if \<not> downloadOSSupported pr then LOCAL_INSTALL_MEDIA_SOURCE
                     else DOWNLOAD_AN_OS)
             else EXISTING_DISK_IMAGE_SOURCE)
      in \<lparr>inProgress = False,
          validate = False,
          vmName = [],
          connectionName = LIBVIRT_SYSTEM_CONNECTION,
          sourceType = defaultSourceType,
          unattendedInstallation = False,
          source = Some [],
          os = None,
          memorySize = min (convertToUnit 1024 MiB GiB)
                           (of_int \<lfloor>convertToUnit (nodeMaxMemory pr) KiB GiB\<rfloor>),
          memorySizeUnit = GiB,
          storageSize = min (convertToUnit (10 * 1024) MiB GiB)
                            (of_int \<lfloor>convertToUnit (nodeMaxMemory pr) KiB GiB\<rfloor>),
          storageSizeUnit = GiB,
          storagePool = lit ''NewVolume'',
          storageVolume = Some [],
          startVm = True,
          recommendedMemory = None,
          minimumMemory = 0,
          recommendedStorage = None,
          minimumStorage = 0,
          userPassword = [],
          rootPassword = [],
          profile = None,
          sourceMediaID = None\<rparr>)"

subsection \<open>A host and some drafts to run the definitions on\<close>

definition host_user :: user where
  "host_user = \<lparr>user_name = lit ''admin'', user_home = lit ''/home/admin''\<rparr>"

text \<open>An operating system that asks for 1 GiB of memory and 10 GiB of storage at least.\<close>

definition fedora :: osinfo where
  "fedora =
     \<lparr>os_id = lit ''http://fedoraproject.org/fedora/31'',
      shortId = lit ''fedora31'',
      minimumResources = \<lparr>ram = Some 1073741824, storage = Some 10737418240\<rparr>,
      recommendedResources = \<lparr>ram = Some 2147483648, storage = Some 21474836480\<rparr>,
      profiles = Some [lit ''desktop'', lit ''jeos''],
      unattendedInstallable = False\<rparr>"

text \<open>
  A host with 16 GiB of memory, one virtual network and one node device on the system
  connection, and two machines: \<open>web\<close> on the session connection and \<open>db\<close> on the
  system connection.
\<close>

definition host :: props where
  "host =
     \<lparr>nodeMaxMemory = 16777216,
      nodeDevices = [\<lparr>dev_name = lit ''eth0'', dev_connectionName = LIBVIRT_SYSTEM_CONNECTION\<rparr>],
      networks = [\<lparr>net_name = lit ''default'', net_connectionName = LIBVIRT_SYSTEM_CONNECTION\<rparr>],
      storagePools = [],
      vms = [\<lparr>vm_name = lit ''web'', vm_connectionName = LIBVIRT_SESSION_CONNECTION\<rparr>,
             \<lparr>vm_name = lit ''db'', vm_connectionName = LIBVIRT_SYSTEM_CONNECTION\<rparr>],
      osInfoList = [fedora],
      mode = lit ''create'',
      downloadOSSupported = True\<rparr>"

text \<open>The untouched draft, and a draft that is ready to be submitted.\<close>

definition blank_draft :: state where
  "blank_draft = constructor_state host"

definition ready_draft :: state where
  "ready_draft = blank_draft\<lparr>vmName := lit ''web'', os := Some fedora,
     minimumMemory := 1073741824, minimumStorage := 10737418240\<rparr>"

section \<open>Properties\<close>

subsection \<open>Auxiliary facts about validation\<close>

lemma source_constants_distinct:
  "PXE_SOURCE \<noteq> LOCAL_INSTALL_MEDIA_SOURCE" "PXE_SOURCE \<noteq> EXISTING_DISK_IMAGE_SOURCE"
  "PXE_SOURCE \<noteq> URL_SOURCE" "PXE_SOURCE \<noteq> DOWNLOAD_AN_OS"
  "LOCAL_INSTALL_MEDIA_SOURCE \<noteq> EXISTING_DISK_IMAGE_SOURCE"
  "LOCAL_INSTALL_MEDIA_SOURCE \<noteq> URL_SOURCE" "LOCAL_INSTALL_MEDIA_SOURCE \<noteq> DOWNLOAD_AN_OS"
  "EXISTING_DISK_IMAGE_SOURCE \<noteq> URL_SOURCE" "EXISTING_DISK_IMAGE_SOURCE \<noteq> DOWNLOAD_AN_OS"
  "URL_SOURCE \<noteq> DOWNLOAD_AN_OS"
  by (simp_all add: PXE_SOURCE_def LOCAL_INSTALL_MEDIA_SOURCE_def EXISTING_DISK_IMAGE_SOURCE_def
      URL_SOURCE_def DOWNLOAD_AN_OS_def lit_def)

text \<open>With the user record loaded, the validation returns.\<close>

lemma validateParams_returns:
  "\<exists>v. validateParams (Some u) vms0 p = Inr v"
  unfolding validateParams_def Let_def
  by (cases "unattendedInstallation p"; cases "rootPassword p = []";
      cases "user_name u = lit ''root''"; cases "userPassword p = []")
     (simp_all split del: if_split)

text \<open>The only exception of the validation is the unguarded read of the user's name.\<close>

lemma validateParams_raises:
  "(validateParams pu vms0 p = Inl TypeError) =
   (pu = None \<and> unattendedInstallation p \<and> rootPassword p = [])"
  unfolding validateParams_def Let_def
  by (cases "unattendedInstallation p"; cases "rootPassword p = []"; cases pu;
      cases "user_name (the pu) = lit ''root''"; cases "userPassword p = []")
     (simp_all split del: if_split)

text \<open>What \<^verbatim>\<open>validateParams\<close> returns, section by section.\<close>

lemma validateParams_vmName:
  assumes "validateParams pu vms0 p = Inr v"
  shows "failed_vmName v =
     (if isEmpty (Some (trim (vmName p))) then Some NameEmpty
      else if list_ex (\<lambda>vm. vm_name vm = vmName p) vms0 then Some (VmExists (vmName p))
      else None)"
  using assms unfolding validateParams_def Let_def
  by (cases "unattendedInstallation p"; cases "rootPassword p = []"; cases pu;
      cases "user_name (the pu) = lit ''root''"; cases "userPassword p = []")
     (auto split del: if_split)

lemma validateParams_os:
  assumes "validateParams pu vms0 p = Inr v"
  shows "failed_os v = (if os p = None then Some OsRequired else None)"
  using assms unfolding validateParams_def Let_def
  by (cases "unattendedInstallation p"; cases "rootPassword p = []"; cases pu;
      cases "user_name (the pu) = lit ''root''"; cases "userPassword p = []")
     (auto split del: if_split)

lemma validateParams_memory:
  assumes "validateParams pu vms0 p = Inr v"
  shows "failed_memory v =
     (if memorySize p = 0 then Some MemoryZero
      else (case os p of
              None \<Rightarrow> None
            | Some os0 \<Rightarrow>
                (case ram (minimumResources os0) of
                   None \<Rightarrow> None
                 | Some r \<Rightarrow>
                     if r \<noteq> 0 \<and> convertToUnit (memorySize p) (memorySizeUnit p) B < r
                       then Some (MemoryMinimum (convertToUnit r B (memorySizeUnit p))
                                    (memorySizeUnit p))
                     else None)))"
  using assms unfolding validateParams_def Let_def
  by (cases "unattendedInstallation p"; cases "rootPassword p = []"; cases pu;
      cases "user_name (the pu) = lit ''root''"; cases "userPassword p = []")
     (auto split del: if_split)

lemma validateParams_source:
  assumes "validateParams pu vms0 p = Inr v"
  shows "failed_source v =
     (case source p of
        None \<Rightarrow> if sourceType p \<noteq> DOWNLOAD_AN_OS then Some SourceEmpty else None
      | Some src \<Rightarrow>
          if src \<noteq> [] \<and> \<not> isEmpty (Some (trim src)) then
            (if sourceType p = PXE_SOURCE then None
             else if sourceType p = LOCAL_INSTALL_MEDIA_SOURCE
                     \<or> sourceType p = EXISTING_DISK_IMAGE_SOURCE then
               (if \<not> startsWith src (lit ''/'') then Some InvalidFilename else None)
             else
               (if \<not> startsWith src (lit ''http'') \<and>
                   \<not> startsWith src (lit ''ftp'') \<and>
                   \<not> startsWith src (lit ''nfs'')
                  then Some SourceProtocol else None))
          else if sourceType p \<noteq> DOWNLOAD_AN_OS then Some SourceEmpty else None)"
  using assms unfolding validateParams_def Let_def
  by (cases "unattendedInstallation p"; cases "rootPassword p = []"; cases pu;
      cases "user_name (the pu) = lit ''root''"; cases "userPassword p = []")
     (auto split del: if_split)

lemma trim_nonempty_imp: "trim s \<noteq> [] \<Longrightarrow> s \<noteq> []"
  by (auto simp: trim_def)

lemma trim_web: "trim (lit ''web'') = lit ''web''"
  by (simp add: trim_def lit_def isWhiteSpace_def)

subsection \<open>Validation of the name\<close>

text \<open>
  Claim C1. With the user record loaded, \<^verbatim>\<open>validateParams\<close> returns, and its result has
  an entry for the name exactly when the name of the draft is empty after trimming or
  equals, code unit for code unit, the name of a machine in the list it was given. When a
  machine of that (non-blank) name exists but every machine of that name belongs to another
  connection, the list that \<^verbatim>\<open>onCreateClicked\<close> filters for the connection of the draft
  does not hold the name, and the result has no entry for the name.
\<close>

theorem validateParams_name_failure:
  "(\<exists>v. validateParams (Some u) vms0 p = Inr v \<and>
        ((failed_vmName v \<noteq> None) =
         (trim (vmName p) = [] \<or> vmName p \<in> set (map vm_name vms0))))
   \<and> (vm0 \<in> set all_vms \<and> vm_name vm0 = vmName p \<and> trim (vm_name vm0) \<noteq> [] \<and>
        (\<forall>vm \<in> set all_vms. vm_name vm = vmName p \<longrightarrow> vm_connectionName vm \<noteq> connectionName p)
      \<longrightarrow> (\<exists>v. validateParams (Some u)
                  (filter (\<lambda>vm. vm_connectionName vm = connectionName p) all_vms) p = Inr v \<and>
               failed_vmName v = None))"
proof (intro conjI impI)
  obtain v where v: "validateParams (Some u) vms0 p = Inr v"
    using validateParams_returns by blast
  have "(failed_vmName v \<noteq> None) =
        (trim (vmName p) = [] \<or> vmName p \<in> set (map vm_name vms0))"
    by (force simp: validateParams_vmName [OF v] isEmpty_def list_ex_iff)
  with v show "\<exists>v. validateParams (Some u) vms0 p = Inr v \<and>
        ((failed_vmName v \<noteq> None) =
         (trim (vmName p) = [] \<or> vmName p \<in> set (map vm_name vms0)))"
    by blast
next
  let ?scope = "filter (\<lambda>vm. vm_connectionName vm = connectionName p) all_vms"
  assume h: "vm0 \<in> set all_vms \<and> vm_name vm0 = vmName p \<and> trim (vm_name vm0) \<noteq> [] \<and>
        (\<forall>vm \<in> set all_vms. vm_name vm = vmName p \<longrightarrow> vm_connectionName vm \<noteq> connectionName p)"
  obtain v where v: "validateParams (Some u) ?scope p = Inr v"
    using validateParams_returns by blast
  from h have "failed_vmName v = None"
    by (auto simp: validateParams_vmName [OF v] isEmpty_def list_ex_iff)
  with v show "\<exists>v. validateParams (Some u) ?scope p = Inr v \<and> failed_vmName v = None"
    by blast
qed

text \<open>
  The draft \<open>web\<close> on the system connection passes beside a machine \<open>web\<close> on the
  session connection and beside a machine \<open>WEB\<close> on its own connection; beside a machine
  \<open>web\<close> on its own connection it does not.
\<close>

theorem validateParams_name_failure_witness:
  "(\<exists>v. validateParams (Some host_user)
           (filter (\<lambda>vm. vm_connectionName vm = connectionName ready_draft) (vms host))
           ready_draft = Inr v \<and> failed_vmName v = None)
   \<and> (\<exists>v. validateParams (Some host_user)
           [\<lparr>vm_name = lit ''web'', vm_connectionName = LIBVIRT_SYSTEM_CONNECTION\<rparr>]
           ready_draft = Inr v \<and> failed_vmName v \<noteq> None)
   \<and> (\<exists>v. validateParams (Some host_user)
           [\<lparr>vm_name = lit ''WEB'', vm_connectionName = LIBVIRT_SYSTEM_CONNECTION\<rparr>]
           ready_draft = Inr v \<and> failed_vmName v = None)"
proof -
  have name: "vmName ready_draft = lit ''web''"
    and conn: "connectionName ready_draft = LIBVIRT_SYSTEM_CONNECTION"
    by (simp_all add: ready_draft_def blank_draft_def constructor_state_def)
  have "vms host = [\<lparr>vm_name = lit ''web'', vm_connectionName = LIBVIRT_SESSION_CONNECTION\<rparr>,
             \<lparr>vm_name = lit ''db'', vm_connectionName = LIBVIRT_SYSTEM_CONNECTION\<rparr>]"
    by (simp add: host_def)
  then have hyp: "\<lparr>vm_name = lit ''web'', vm_connectionName = LIBVIRT_SESSION_CONNECTION\<rparr> \<in> set (vms host) \<and>
      vm_name \<lparr>vm_name = lit ''web'', vm_connectionName = LIBVIRT_SESSION_CONNECTION\<rparr> = vmName ready_draft \<and>
      trim (vm_name \<lparr>vm_name = lit ''web'', vm_connectionName = LIBVIRT_SESSION_CONNECTION\<rparr>) \<noteq> [] \<and>
      (\<forall>vm \<in> set (vms host). vm_name vm = vmName ready_draft \<longrightarrow>
          vm_connectionName vm \<noteq> connectionName ready_draft)"
    by (simp add: name conn trim_web) (simp add: lit_def)
  have upper: "lit ''web'' \<noteq> lit ''WEB''" "lit ''web'' \<noteq> []"
    by (simp_all add: lit_def)
  show ?thesis
    using validateParams_name_failure [of host_user "vms host" ready_draft
            "\<lparr>vm_name = lit ''web'', vm_connectionName = LIBVIRT_SESSION_CONNECTION\<rparr>" "vms host"]
          validateParams_name_failure [of host_user
            "[\<lparr>vm_name = lit ''web'', vm_connectionName = LIBVIRT_SYSTEM_CONNECTION\<rparr>]" ready_draft]
          validateParams_name_failure [of host_user
            "[\<lparr>vm_name = lit ''WEB'', vm_connectionName = LIBVIRT_SYSTEM_CONNECTION\<rparr>]" ready_draft]
          hyp upper
    by (simp add: name trim_web)
qed


subsection \<open>Validation of the memory\<close>

text \<open>
  Claim C2. With the user record loaded, \<^verbatim>\<open>validateParams\<close> returns; a memory size of
  exactly zero gives the memory entry whatever the operating system is, and any other
  memory size gives a memory entry exactly when an operating system is selected, its
  minimum of memory is present and not zero (what the test of the source takes for
  specified), and the memory size converted to bytes is strictly below that minimum.
\<close>

theorem validateParams_memory_failure:
  "\<exists>v. validateParams (Some u) vms0 p = Inr v \<and>
       (memorySize p = 0 \<longrightarrow> failed_memory v = Some MemoryZero) \<and>
       (memorySize p \<noteq> 0 \<longrightarrow>
          (failed_memory v \<noteq> None) =
          (\<exists>os0 r. os p = Some os0 \<and> ram (minimumResources os0) = Some r \<and> r \<noteq> 0 \<and>
                   convertToUnit (memorySize p) (memorySizeUnit p) B < r))"
proof -
  obtain v where v: "validateParams (Some u) vms0 p = Inr v"
    using validateParams_returns by blast
  have "memorySize p = 0 \<longrightarrow> failed_memory v = Some MemoryZero"
    by (simp add: validateParams_memory [OF v])
  moreover have "memorySize p \<noteq> 0 \<longrightarrow>
          (failed_memory v \<noteq> None) =
          (\<exists>os0 r. os p = Some os0 \<and> ram (minimumResources os0) = Some r \<and> r \<noteq> 0 \<and>
                   convertToUnit (memorySize p) (memorySizeUnit p) B < r)"
    by (auto simp: validateParams_memory [OF v] split: option.splits)
  ultimately show ?thesis using v by blast
qed

theorem validateParams_memory_failure_witness:
  "(\<exists>v. validateParams (Some host_user) [] (blank_draft\<lparr>memorySize := 0\<rparr>) = Inr v \<and>
        failed_memory v = Some MemoryZero)
   \<and> (\<exists>v. validateParams (Some host_user) [] (ready_draft\<lparr>memorySize := 0\<rparr>) = Inr v \<and>
        failed_memory v = Some MemoryZero)
   \<and> (\<exists>v. validateParams (Some host_user) [] (ready_draft\<lparr>memorySize := 512, memorySizeUnit := MiB\<rparr>) = Inr v \<and>
        failed_memory v \<noteq> None)
   \<and> (\<exists>v. validateParams (Some host_user) [] (blank_draft\<lparr>memorySize := 512, memorySizeUnit := MiB\<rparr>) = Inr v \<and>
        failed_memory v = None)"
proof -
  have os_ready: "os ready_draft = Some fedora" and os_blank: "os blank_draft = None"
    by (simp_all add: ready_draft_def blank_draft_def constructor_state_def)
  have ram: "ram (minimumResources fedora) = Some 1073741824"
    by (simp add: fedora_def)
  have below: "convertToUnit 512 MiB B < 1073741824"
    by (simp add: convertToUnit_def)
  show ?thesis
    using validateParams_memory_failure [of host_user "[]" "blank_draft\<lparr>memorySize := 0\<rparr>"]
          validateParams_memory_failure [of host_user "[]" "ready_draft\<lparr>memorySize := 0\<rparr>"]
          validateParams_memory_failure [of host_user "[]"
            "ready_draft\<lparr>memorySize := 512, memorySizeUnit := MiB\<rparr>"]
          validateParams_memory_failure [of host_user "[]"
            "blank_draft\<lparr>memorySize := 512, memorySizeUnit := MiB\<rparr>"]
    by (simp add: os_ready os_blank ram below)
qed

subsection \<open>Validation of the installation source\<close>

text \<open>
  Claim C5. With the user record loaded, \<^verbatim>\<open>validateParams\<close> returns. For a source that
  is not empty after trimming, the result has a source entry exactly when the type is
  local media or existing disk image and the source does not start with a slash, or the
  type is none of network boot, local media and existing disk image and the source starts
  with none of http, ftp and nfs; for network boot there is no entry. For a source that
  is undefined or empty after trimming, there is an entry exactly when the type is not
  the download of an operating system.
\<close>

theorem validateParams_source_failure:
  "\<exists>v. validateParams (Some u) vms0 p = Inr v \<and>
       (\<forall>src. source p = Some src \<and> trim src \<noteq> [] \<longrightarrow>
          (failed_source v \<noteq> None) =
          ((sourceType p = LOCAL_INSTALL_MEDIA_SOURCE \<or> sourceType p = EXISTING_DISK_IMAGE_SOURCE) \<and>
             \<not> startsWith src (lit ''/'')
           \<or> sourceType p \<noteq> PXE_SOURCE \<and> sourceType p \<noteq> LOCAL_INSTALL_MEDIA_SOURCE \<and>
             sourceType p \<noteq> EXISTING_DISK_IMAGE_SOURCE \<and>
             \<not> startsWith src (lit ''http'') \<and> \<not> startsWith src (lit ''ftp'') \<and>
             \<not> startsWith src (lit ''nfs''))) \<and>
       (\<forall>src. source p = Some src \<and> trim src \<noteq> [] \<and> sourceType p = PXE_SOURCE \<longrightarrow>
          failed_source v = None) \<and>
       (source p = None \<or> (\<exists>src. source p = Some src \<and> trim src = []) \<longrightarrow>
          (failed_source v \<noteq> None) = (sourceType p \<noteq> DOWNLOAD_AN_OS))"
proof -
  obtain v where v: "validateParams (Some u) vms0 p = Inr v"
    using validateParams_returns by blast
  note src = validateParams_source [OF v]
  have a: "\<forall>src. source p = Some src \<and> trim src \<noteq> [] \<longrightarrow>
          (failed_source v \<noteq> None) =
          ((sourceType p = LOCAL_INSTALL_MEDIA_SOURCE \<or> sourceType p = EXISTING_DISK_IMAGE_SOURCE) \<and>
             \<not> startsWith src (lit ''/'')
           \<or> sourceType p \<noteq> PXE_SOURCE \<and> sourceType p \<noteq> LOCAL_INSTALL_MEDIA_SOURCE \<and>
             sourceType p \<noteq> EXISTING_DISK_IMAGE_SOURCE \<and>
             \<not> startsWith src (lit ''http'') \<and> \<not> startsWith src (lit ''ftp'') \<and>
             \<not> startsWith src (lit ''nfs''))"
    using source_constants_distinct
    by (auto simp: src isEmpty_def dest: trim_nonempty_imp)
  have b: "\<forall>src. source p = Some src \<and> trim src \<noteq> [] \<and> sourceType p = PXE_SOURCE \<longrightarrow>
          failed_source v = None"
    by (auto simp: src isEmpty_def dest: trim_nonempty_imp)
  have c: "source p = None \<or> (\<exists>src. source p = Some src \<and> trim src = []) \<longrightarrow>
          (failed_source v \<noteq> None) = (sourceType p \<noteq> DOWNLOAD_AN_OS)"
    by (auto simp: src isEmpty_def)
  from v a b c show ?thesis by blast
qed

text \<open>Sources that pass and sources that fail, for each branch of the rule.\<close>

lemma trim_literals:
  "trim (lit ''https://example.org/f.iso'') \<noteq> []"
  "trim (lit ''/tmp/f.iso'') \<noteq> []"
  "trim (lit ''tmp/f.iso'') \<noteq> []"
  "trim (lit ''network=default'') \<noteq> []"
  "trim (lit '' '') = []"
  by (simp_all add: trim_def lit_def isWhiteSpace_def)

theorem validateParams_source_failure_witness:
  "(\<exists>v. validateParams (Some host_user) []
          (blank_draft\<lparr>sourceType := URL_SOURCE, source := Some (lit ''https://example.org/f.iso'')\<rparr>) = Inr v \<and>
        failed_source v = None)
   \<and> (\<exists>v. validateParams (Some host_user) []
          (blank_draft\<lparr>sourceType := URL_SOURCE, source := Some (lit ''/tmp/f.iso'')\<rparr>) = Inr v \<and>
        failed_source v \<noteq> None)
   \<and> (\<exists>v. validateParams (Some host_user) []
          (blank_draft\<lparr>sourceType := LOCAL_INSTALL_MEDIA_SOURCE, source := Some (lit ''tmp/f.iso'')\<rparr>) = Inr v \<and>
        failed_source v \<noteq> None)
   \<and> (\<exists>v. validateParams (Some host_user) []
          (blank_draft\<lparr>sourceType := PXE_SOURCE, source := Some (lit ''network=default'')\<rparr>) = Inr v \<and>
        failed_source v = None)
   \<and> (\<exists>v. validateParams (Some host_user) []
          (blank_draft\<lparr>sourceType := PXE_SOURCE, source := Some (lit '' '')\<rparr>) = Inr v \<and>
        failed_source v \<noteq> None)
   \<and> (\<exists>v. validateParams (Some host_user) [] blank_draft = Inr v \<and> failed_source v = None)"
proof -
  have blank: "source blank_draft = Some []" "sourceType blank_draft = DOWNLOAD_AN_OS"
    by (simp_all add: blank_draft_def constructor_state_def host_def)
  have starts: "startsWith (lit ''https://example.org/f.iso'') (lit ''http'')"
    "\<not> startsWith (lit ''/tmp/f.iso'') (lit ''http'')"
    "\<not> startsWith (lit ''/tmp/f.iso'') (lit ''ftp'')"
    "\<not> startsWith (lit ''/tmp/f.iso'') (lit ''nfs'')"
    "\<not> startsWith (lit ''tmp/f.iso'') (lit ''/'')"
    by (simp_all add: startsWith_def lit_def)
  have empty: "trim [] = []"
    by (simp add: trim_def)
  show ?thesis
    using validateParams_source_failure [of host_user "[]"
            "blank_draft\<lparr>sourceType := URL_SOURCE, source := Some (lit ''https://example.org/f.iso'')\<rparr>"]
          validateParams_source_failure [of host_user "[]"
            "blank_draft\<lparr>sourceType := URL_SOURCE, source := Some (lit ''/tmp/f.iso'')\<rparr>"]
          validateParams_source_failure [of host_user "[]"
            "blank_draft\<lparr>sourceType := LOCAL_INSTALL_MEDIA_SOURCE, source := Some (lit ''tmp/f.iso'')\<rparr>"]
          validateParams_source_failure [of host_user "[]"
            "blank_draft\<lparr>sourceType := PXE_SOURCE, source := Some (lit ''network=default'')\<rparr>"]
          validateParams_source_failure [of host_user "[]"
            "blank_draft\<lparr>sourceType := PXE_SOURCE, source := Some (lit '' '')\<rparr>"]
          validateParams_source_failure [of host_user "[]" blank_draft]
          source_constants_distinct
    by (simp add: blank starts empty trim_literals)
qed

subsection \<open>Names that differ by surrounding whitespace\<close>



subsection \<open>Submission\<close>

text \<open>
  A draft without an operating system always fails validation, so the submission never
  reaches the branch of the parameter object that writes \<open>auto\<close>.
\<close>

lemma no_os_never_submitted:
  "os p = None \<Longrightarrow> validateParams pu vms0 p \<noteq> Inr no_failures"
proof
  assume "os p = None" and v: "validateParams pu vms0 p = Inr no_failures"
  then have "failed_os no_failures = Some OsRequired"
    by (simp add: validateParams_os [OF v])
  then show False
    by (simp add: no_failures_def)
qed

text \<open>
  Claim C3. When \<^verbatim>\<open>validateParams\<close> returns no entry, \<^verbatim>\<open>onCreateClicked\<close> dispatches
  \<^verbatim>\<open>createVm\<close> exactly once, with the parameter object of the draft, and marks the
  dialog as in progress; when it returns some entry, nothing is dispatched and the draft
  is only marked as showing the validation (and not in progress). The parameter object
  holds the memory converted to MiB and the storage converted to GiB, and as operating
  system the short id of the selected one, or the literal \<open>auto\<close> when none is selected.
\<close>

theorem onCreateClicked_submit:
  "(validateParams pu (filter (\<lambda>vm. vm_connectionName vm = connectionName s) (vms pr)) s
      = Inr no_failures
    \<longrightarrow> onCreateClicked pu pr s
          = Inr (s\<lparr>inProgress := True, validate := False\<rparr>, [vmParams_of s]))
   \<and> (\<forall>v. validateParams pu (filter (\<lambda>vm. vm_connectionName vm = connectionName s) (vms pr)) s
            = Inr v \<and> v \<noteq> no_failures
        \<longrightarrow> onCreateClicked pu pr s = Inr (s\<lparr>inProgress := False, validate := True\<rparr>, []))
   \<and> p_memorySize (vmParams_of s) = convertToUnit (memorySize s) (memorySizeUnit s) MiB
   \<and> p_storageSize (vmParams_of s) = convertToUnit (storageSize s) (storageSizeUnit s) GiB
   \<and> (os s = None \<longrightarrow> p_os (vmParams_of s) = lit ''auto'')
   \<and> (\<forall>os0. os s = Some os0 \<longrightarrow> p_os (vmParams_of s) = shortId os0)"
  by (simp add: onCreateClicked_def vmParams_of_def)

lemma ready_draft_valid:
  "validateParams (Some host_user)
     (filter (\<lambda>vm. vm_connectionName vm = connectionName ready_draft) (vms host)) ready_draft
   = Inr no_failures"
  by (simp add: validateParams_def ready_draft_def blank_draft_def constructor_state_def host_def
      fedora_def host_user_def no_failures_def convertToUnit_def isEmpty_def trim_def lit_def
      isWhiteSpace_def DOWNLOAD_AN_OS_def EXISTING_DISK_IMAGE_SOURCE_def)

lemma blank_draft_invalid:
  "validateParams (Some host_user)
     (filter (\<lambda>vm. vm_connectionName vm = connectionName blank_draft) (vms host)) blank_draft
   = Inr (no_failures\<lparr>failed_vmName := Some NameEmpty, failed_os := Some OsRequired\<rparr>)"
  by (simp add: validateParams_def blank_draft_def constructor_state_def host_def
      fedora_def host_user_def no_failures_def convertToUnit_def isEmpty_def trim_def lit_def
      isWhiteSpace_def DOWNLOAD_AN_OS_def EXISTING_DISK_IMAGE_SOURCE_def)

theorem onCreateClicked_submit_witness:
  "onCreateClicked (Some host_user) host ready_draft
     = Inr (ready_draft\<lparr>inProgress := True, validate := False\<rparr>, [vmParams_of ready_draft])
   \<and> p_memorySize (vmParams_of ready_draft) = 1024
   \<and> p_storageSize (vmParams_of ready_draft) = 10
   \<and> p_os (vmParams_of ready_draft) = lit ''fedora31''
   \<and> onCreateClicked (Some host_user) host blank_draft
     = Inr (blank_draft\<lparr>inProgress := False, validate := True\<rparr>, [])
   \<and> p_os (vmParams_of blank_draft) = lit ''auto''"
proof -
  have ne: "no_failures\<lparr>failed_vmName := Some NameEmpty, failed_os := Some OsRequired\<rparr> \<noteq> no_failures"
    by (simp add: no_failures_def)
  have fields: "os ready_draft = Some fedora" "os blank_draft = None"
    "memorySize ready_draft = 1" "memorySizeUnit ready_draft = GiB"
    "storageSize ready_draft = 10" "storageSizeUnit ready_draft = GiB"
    "shortId fedora = lit ''fedora31''"
    by (simp_all add: ready_draft_def blank_draft_def constructor_state_def host_def fedora_def
        convertToUnit_def)
  have conv: "convertToUnit 1 GiB MiB = 1024" "convertToUnit 10 GiB GiB = 10"
    by (simp_all add: convertToUnit_def)
  show ?thesis
    using onCreateClicked_submit [of "Some host_user" ready_draft host]
          onCreateClicked_submit [of "Some host_user" blank_draft host]
          ready_draft_valid blank_draft_invalid ne
    by (simp add: fields conv)
qed

subsection \<open>Where the update rule raises\<close>

text \<open>
  The only call that raises is the one that clears the operating system: the \<^verbatim>\<open>os\<close>
  case reads \<^verbatim>\<open>value.unattendedInstallable\<close> without a guard.
\<close>

lemma onValueChanged_raises:
  "(onValueChanged pu pr s c st = Inl TypeError) = (c = K_os None)"
  by (cases c) (auto simp: Let_def split: option.splits)

subsection \<open>The rule for the name\<close>

text \<open>Splitting at a code unit and joining with another replaces the one by the other.\<close>

lemma split_not_Nil: "split sep s \<noteq> []"
  by (induction s) (auto split: list.splits)

lemma join_Cons_Cons: "join sep ((c # p) # ps) = c # join sep (p # ps)"
  by (cases ps) simp_all

lemma join_split:
  "join [u] (split sep s) = map (\<lambda>c. if c = sep then u else c) s"
proof (induction s)
  case Nil
  show ?case by simp
next
  case (Cons c cs)
  obtain p ps where ps: "split sep cs = p # ps"
    using split_not_Nil [of sep cs] by (cases "split sep cs") auto
  show ?case
  proof (cases "c = sep")
    case True
    with Cons ps show ?thesis by simp
  next
    case False
    with Cons ps show ?thesis by (simp add: join_Cons_Cons)
  qed
qed

text \<open>
  Claim C8, as stated, fails: the rule splits at the space U+0020 only, so the name
  \<open>a<TAB>b\<close> is stored as it is, with its tabulator, which is whitespace.
\<close>

theorem vmName_whitespace_counterexample:
  "onValueChanged (Some host_user) host blank_draft (K_vmName [0x61, 0x09, 0x62]) blank_draft
     = Inr (blank_draft\<lparr>vmName := [0x61, 0x09, 0x62]\<rparr>)
   \<and> isWhiteSpace 0x09"
  by (simp add: lit_def isWhiteSpace_def)

text \<open>
  Claim C8, amended. The rule for the name stores the raw string with every space U+0020
  replaced by an underscore and every other code unit kept, so the stored name has the
  length of the raw one and never contains a space.
\<close>

theorem vmName_spaces_replaced:
  "onValueChanged pu pr s (K_vmName v) s
     = Inr (s\<lparr>vmName := map (\<lambda>c. if c = 0x20 then 0x5F else c) v\<rparr>)
   \<and> 0x20 \<notin> set (map (\<lambda>c. if c = 0x20 then 0x5F else c) v)
   \<and> length (map (\<lambda>c. if c = 0x20 then 0x5F else c) v) = length v"
proof -
  have "lit ''_'' = [0x5F]"
    by (simp add: lit_def)
  then have "join (lit ''_'') (split 0x20 v) = map (\<lambda>c. if c = 0x20 then 0x5F else c) v"
    by (simp add: join_split)
  moreover have "(0x20 :: 16 word) \<notin> set (map (\<lambda>c. if c = 0x20 then 0x5F else c) v)"
    by auto
  ultimately show ?thesis by simp
qed

subsection \<open>The rule for the memory size\<close>

text \<open>
  Claim C6, as stated, fails: with an operating system selected that asks for 1 GiB, which
  is 1024 MiB, the raw value 512 in the unit MiB is stored as 512. The rule clamps from
  above only.
\<close>

theorem memorySize_below_minimum_counterexample:
  "onValueChanged (Some host_user) host
       (ready_draft\<lparr>memorySizeUnit := MiB, memorySize := 1024\<rparr>) (K_memorySize 512)
       (ready_draft\<lparr>memorySizeUnit := MiB, memorySize := 1024\<rparr>)
     = Inr (ready_draft\<lparr>memorySizeUnit := MiB, memorySize := 512\<rparr>)
   \<and> os ready_draft = Some fedora
   \<and> ram (minimumResources fedora) = Some 1073741824
   \<and> (512 :: rat) < convertToUnit 1073741824 B MiB"
  by (simp add: ready_draft_def blank_draft_def constructor_state_def host_def fedora_def
      convertToUnit_def)

text \<open>
  Claim C6, amended. The rule for the memory size stores the smaller of the raw value and
  the floor of the memory of the node converted from KiB into the current unit, and leaves
  the unit alone; so the stored value exceeds neither the memory of the node in the
  current unit nor the raw value. The rule applies no lower bound.
\<close>

theorem memorySize_clamped_to_node_maximum:
  "\<exists>s'. onValueChanged pu pr s (K_memorySize v) s = Inr s' \<and>
        memorySize s' = min v (of_int \<lfloor>convertToUnit (nodeMaxMemory pr) KiB (memorySizeUnit s)\<rfloor>) \<and>
        memorySizeUnit s' = memorySizeUnit s \<and>
        memorySize s' \<le> convertToUnit (nodeMaxMemory pr) KiB (memorySizeUnit s') \<and>
        memorySize s' \<le> v"
proof -
  have "min v (of_int \<lfloor>convertToUnit (nodeMaxMemory pr) KiB (memorySizeUnit s)\<rfloor>)
        \<le> convertToUnit (nodeMaxMemory pr) KiB (memorySizeUnit s)"
    by (rule min.coboundedI2) (rule of_int_floor_le)
  then show ?thesis by simp
qed

subsection \<open>The rules for the units\<close>

lemma convertToUnit_back:
  "convertToUnit (convertToUnit x u1 u2) u2 u3 = convertToUnit x u1 u3"
  by (simp add: convertToUnit_def)

lemma convertToUnit_same: "convertToUnit x u u = x"
  by (simp add: convertToUnit_def)

lemma convertToUnit_floor_le:
  "convertToUnit (of_int \<lfloor>convertToUnit x u1 u2\<rfloor>) u2 u1 \<le> x"
proof -
  have "convertToUnit (of_int \<lfloor>convertToUnit x u1 u2\<rfloor>) u2 u1
        \<le> convertToUnit (convertToUnit x u1 u2) u2 u1"
    unfolding convertToUnit_def [of _ u2 u1]
    by (intro divide_right_mono mult_right_mono) simp_all
  then show ?thesis
    by (simp add: convertToUnit_back convertToUnit_same)
qed

lemma convertToUnit_floor_gt:
  "x - convertToUnit 1 u2 u1 < convertToUnit (of_int \<lfloor>convertToUnit x u1 u2\<rfloor>) u2 u1"
proof -
  let ?a = "(1024::rat) ^ base1024Exponent u2 / 1024 ^ base1024Exponent u1"
  have pos: "0 < ?a" by simp
  have "convertToUnit x u1 u2 < of_int \<lfloor>convertToUnit x u1 u2\<rfloor> + 1"
    by linarith
  then have "convertToUnit x u1 u2 * ?a < (of_int \<lfloor>convertToUnit x u1 u2\<rfloor> + 1) * ?a"
    using pos by (rule mult_strict_right_mono)
  moreover have "convertToUnit x u1 u2 * ?a = x"
    by (simp add: convertToUnit_def)
  moreover have "(of_int \<lfloor>convertToUnit x u1 u2\<rfloor> + 1) * ?a
      = convertToUnit (of_int \<lfloor>convertToUnit x u1 u2\<rfloor>) u2 u1 + convertToUnit 1 u2 u1"
    by (simp add: convertToUnit_def algebra_simps add_divide_distrib)
  ultimately show ?thesis by linarith
qed

text \<open>
  Claim C4. The rule for the unit of the memory stores the new unit and the old value
  converted from the old unit into the new one, so the quantity in bytes is the same
  before and after, and changing the unit back restores the value and the unit; the rule
  for the unit of the storage does the same. For all units \<open>u1\<close> and \<open>u2\<close> of the
  ladder, converting a value from \<open>u1\<close> to \<open>u2\<close> and back gives the value; when the
  intermediate value is floored, the result is at most the value and misses it by less
  than one \<open>u2\<close> expressed in \<open>u1\<close>.
\<close>

theorem unit_change_preserves_quantity:
  "(\<exists>s'. onValueChanged pu pr s (K_memorySizeUnit u2) s = Inr s' \<and>
         memorySizeUnit s' = u2 \<and>
         memorySize s' = convertToUnit (memorySize s) (memorySizeUnit s) u2 \<and>
         convertToUnit (memorySize s') (memorySizeUnit s') B
           = convertToUnit (memorySize s) (memorySizeUnit s) B \<and>
         (\<exists>s''. onValueChanged pu pr s' (K_memorySizeUnit (memorySizeUnit s)) s' = Inr s'' \<and>
                memorySizeUnit s'' = memorySizeUnit s \<and> memorySize s'' = memorySize s))
   \<and> (\<exists>s'. onValueChanged pu pr s (K_storageSizeUnit u2) s = Inr s' \<and>
         storageSizeUnit s' = u2 \<and>
         storageSize s' = convertToUnit (storageSize s) (storageSizeUnit s) u2 \<and>
         convertToUnit (storageSize s') (storageSizeUnit s') B
           = convertToUnit (storageSize s) (storageSizeUnit s) B \<and>
         (\<exists>s''. onValueChanged pu pr s' (K_storageSizeUnit (storageSizeUnit s)) s' = Inr s'' \<and>
                storageSizeUnit s'' = storageSizeUnit s \<and> storageSize s'' = storageSize s))
   \<and> convertToUnit (convertToUnit x u1 u2) u2 u1 = x
   \<and> convertToUnit (of_int \<lfloor>convertToUnit x u1 u2\<rfloor>) u2 u1 \<le> x
   \<and> x - convertToUnit 1 u2 u1 < convertToUnit (of_int \<lfloor>convertToUnit x u1 u2\<rfloor>) u2 u1"
  by (simp add: convertToUnit_back convertToUnit_same convertToUnit_floor_le convertToUnit_floor_gt)

subsection \<open>The rule for the type of the source\<close>

lemma getPXEInitialNetworkSource_nonempty:
  "networks0 \<noteq> [] \<or> nodeDevices0 \<noteq> [] \<Longrightarrow>
   \<exists>src. getPXEInitialNetworkSource nodeDevices0 networks0 = Some src \<and> src \<noteq> []"
  by (auto simp: getPXEInitialNetworkSource_def lit_def split: list.splits)

text \<open>
  Claim C7. When the type of the source is network boot and the new type is another one,
  the rule stores the new type and the empty string as source. When the new type is
  network boot, the rule stores as source what \<^verbatim>\<open>getPXEInitialNetworkSource\<close> computes
  from the node devices and the networks of the connection of the draft, and that source
  is defined and non-empty as soon as a network or a node device of that connection
  exists.
\<close>

theorem sourceType_rule_sets_source:
  "(sourceType s = PXE_SOURCE \<and> v \<noteq> PXE_SOURCE \<longrightarrow>
      onValueChanged pu pr s (K_sourceType v) s = Inr (s\<lparr>sourceType := v, source := Some []\<rparr>))
   \<and> onValueChanged pu pr s (K_sourceType PXE_SOURCE) s
       = Inr (s\<lparr>sourceType := PXE_SOURCE,
                source := getPXEInitialNetworkSource
                  (filter (\<lambda>nodeDevice. dev_connectionName nodeDevice = connectionName s) (nodeDevices pr))
                  (filter (\<lambda>network. net_connectionName network = connectionName s) (networks pr))\<rparr>)
   \<and> ((\<exists>network \<in> set (networks pr). net_connectionName network = connectionName s) \<or>
       (\<exists>nodeDevice \<in> set (nodeDevices pr). dev_connectionName nodeDevice = connectionName s)
      \<longrightarrow> (\<exists>s' src. onValueChanged pu pr s (K_sourceType PXE_SOURCE) s = Inr s' \<and>
                     source s' = Some src \<and> src \<noteq> []))"
proof (intro conjI impI)
  assume "sourceType s = PXE_SOURCE \<and> v \<noteq> PXE_SOURCE"
  then show "onValueChanged pu pr s (K_sourceType v) s = Inr (s\<lparr>sourceType := v, source := Some []\<rparr>)"
    by simp
next
  show "onValueChanged pu pr s (K_sourceType PXE_SOURCE) s
       = Inr (s\<lparr>sourceType := PXE_SOURCE,
                source := getPXEInitialNetworkSource
                  (filter (\<lambda>nodeDevice. dev_connectionName nodeDevice = connectionName s) (nodeDevices pr))
                  (filter (\<lambda>network. net_connectionName network = connectionName s) (networks pr))\<rparr>)"
    by simp
next
  let ?devs = "filter (\<lambda>nodeDevice. dev_connectionName nodeDevice = connectionName s) (nodeDevices pr)"
  let ?nets = "filter (\<lambda>network. net_connectionName network = connectionName s) (networks pr)"
  assume "(\<exists>network \<in> set (networks pr). net_connectionName network = connectionName s) \<or>
       (\<exists>nodeDevice \<in> set (nodeDevices pr). dev_connectionName nodeDevice = connectionName s)"
  then have "?nets \<noteq> [] \<or> ?devs \<noteq> []"
    by (auto simp: filter_empty_conv)
  then obtain src where "getPXEInitialNetworkSource ?devs ?nets = Some src" "src \<noteq> []"
    using getPXEInitialNetworkSource_nonempty by blast
  then show "\<exists>s' src. onValueChanged pu pr s (K_sourceType PXE_SOURCE) s = Inr s' \<and>
                     source s' = Some src \<and> src \<noteq> []"
    by simp
qed

theorem sourceType_rule_sets_source_witness:
  "onValueChanged (Some host_user) host (blank_draft\<lparr>sourceType := PXE_SOURCE, source := Some (lit ''network=default'')\<rparr>)
      (K_sourceType URL_SOURCE) (blank_draft\<lparr>sourceType := PXE_SOURCE, source := Some (lit ''network=default'')\<rparr>)
     = Inr (blank_draft\<lparr>sourceType := URL_SOURCE, source := Some []\<rparr>)
   \<and> (\<exists>s' src. onValueChanged (Some host_user) host blank_draft (K_sourceType PXE_SOURCE) blank_draft = Inr s' \<and>
                source s' = Some src \<and> src \<noteq> [])"
proof -
  have "URL_SOURCE \<noteq> PXE_SOURCE"
    using source_constants_distinct by simp
  moreover have "\<exists>network \<in> set (networks host). net_connectionName network = connectionName blank_draft"
    by (simp add: host_def blank_draft_def constructor_state_def)
  ultimately show ?thesis
    using sourceType_rule_sets_source [of "blank_draft\<lparr>sourceType := PXE_SOURCE, source := Some (lit ''network=default'')\<rparr>"
            URL_SOURCE "Some host_user" host]
          sourceType_rule_sets_source [of blank_draft URL_SOURCE "Some host_user" host]
    by simp
qed

subsection \<open>The rule for the unattended installation\<close>

text \<open>
  Claim C9. The rule for the unattended installation stores the flag and sets
  \<^verbatim>\<open>startVm\<close> to true, for either value of the flag. The rule for the operating system,
  given an operating system that does not support the unattended installation, re-enters
  that rule with false, and its result has \<^verbatim>\<open>startVm\<close> true and the unattended
  installation off.
\<close>

theorem unattendedInstallation_forces_startVm:
  "(\<exists>s'. onValueChanged pu pr s (K_unattendedInstallation b) s = Inr s' \<and>
         startVm s' \<and> unattendedInstallation s' = b)
   \<and> (\<not> unattendedInstallable os0 \<longrightarrow>
        (\<exists>s'. onValueChanged pu pr s (K_os (Some os0)) s = Inr s' \<and>
              startVm s' \<and> \<not> unattendedInstallation s'))"
  by (auto simp: os_stateDelta_def Let_def split: option.splits)

theorem unattendedInstallation_forces_startVm_witness:
  "(\<exists>s'. onValueChanged (Some host_user) host (blank_draft\<lparr>startVm := False\<rparr>) (K_os (Some fedora))
           (blank_draft\<lparr>startVm := False\<rparr>) = Inr s' \<and>
         startVm s' \<and> \<not> unattendedInstallation s')
   \<and> (\<exists>s'. onValueChanged (Some host_user) host (blank_draft\<lparr>startVm := False\<rparr>)
           (K_unattendedInstallation False) (blank_draft\<lparr>startVm := False\<rparr>) = Inr s' \<and>
         startVm s' \<and> unattendedInstallation s' = False)"
proof -
  have "\<not> unattendedInstallable fedora"
    by (simp add: fedora_def)
  then show ?thesis
    using unattendedInstallation_forces_startVm [of "Some host_user" host "blank_draft\<lparr>startVm := False\<rparr>"
            False fedora]
    by blast
qed

end
